theory Spec2Isabelle
  imports Main
begin

section \<open>JavaScript values used by the pipeline\<close>

text \<open>
  Identifiers are modelled as strings: the ingestion stage reads CSV, so every field of a
  record is a string, and the normaliser applies \<^verbatim>\<open>toString()\<close> to the targets it
  rewrites. A field that may be missing is a \<open>string option\<close> (\<open>None\<close> is
  \<^verbatim>\<open>undefined\<close>). JavaScript truthiness of such a value: \<^verbatim>\<open>undefined\<close> and the empty
  string are falsy, every other string is truthy.
\<close>

definition truthy :: "string option \<Rightarrow> bool" where
  "truthy v = (case v of None \<Rightarrow> False | Some s \<Rightarrow> s \<noteq> [])"

text \<open>\<^verbatim>\<open>a || b\<close>: the left operand when it is truthy, the right operand otherwise.\<close>

definition js_or :: "string option \<Rightarrow> string option \<Rightarrow> string option" where
  "js_or a b = (if truthy a then a else b)"

text \<open>\<^verbatim>\<open>a || b || "lit"\<close> always ends in a string.\<close>

definition js_or_lit :: "string option \<Rightarrow> string \<Rightarrow> string" where
  "js_or_lit a d = (case a of None \<Rightarrow> d | Some s \<Rightarrow> if s = [] then d else s)"

section \<open>RelationNormalizer (pipeline.js, groupAnimeIntoSeries_internal, lines 418-466)\<close>

text \<open>
  A relation object as the code reads it: the fields \<^verbatim>\<open>targetAnimeId\<close>, \<^verbatim>\<open>id\<close>,
  \<^verbatim>\<open>relationType\<close>, \<^verbatim>\<open>type\<close> and \<^verbatim>\<open>node\<close> (\<open>r_node = Some x\<close> is a node object
  whose \<^verbatim>\<open>id\<close> is \<open>x\<close>). An element of a raw relation list is a bare id or such an
  object.
\<close>

record rel =
  r_targetAnimeId :: "string option"
  r_id :: "string option"
  r_relationType :: "string option"
  r_type :: "string option"
  r_node :: "string option option"

datatype raw_rel = BareId string | RelObj rel

text \<open>
  The raw value of a record's \<^verbatim>\<open>relations\<close> field: absent, a string (JSON text), a
  native array, or any other value. \<^verbatim>\<open>JSON.parse\<close> is a parameter of the model:
  \<open>None\<close> when it throws, otherwise the value it returns.
\<close>

datatype raw_relations = Absent | JsonText string | Elems "raw_rel list" | NonArray

definition hasNodeId :: "rel \<Rightarrow> bool" where
  "hasNodeId r = (case r_node r of None \<Rightarrow> False | Some nid \<Rightarrow> truthy nid)"

definition normalizeRel :: "raw_rel \<Rightarrow> rel" where
  "normalizeRel x =
     (case x of
        BareId s \<Rightarrow>
          \<lparr>r_targetAnimeId = Some s, r_id = None, r_relationType = Some ''UNKNOWN'',
           r_type = None, r_node = None\<rparr>
      | RelObj r \<Rightarrow>
          if hasNodeId r then
            \<lparr>r_targetAnimeId = the (r_node r), r_id = None,
             r_relationType = Some (js_or_lit (r_relationType r) ''UNKNOWN''),
             r_type = None, r_node = None\<rparr>
          else if truthy (r_id r) \<and> \<not> truthy (r_targetAnimeId r) then
            r\<lparr>r_targetAnimeId := r_id r,
              r_relationType :=
                Some (js_or_lit (js_or (r_relationType r) (r_type r)) ''UNKNOWN'')\<rparr>
          else r)"

definition normalizeRelations ::
  "(string \<Rightarrow> raw_relations option) \<Rightarrow> raw_relations \<Rightarrow> rel list" where
  "normalizeRelations jsonParse v =
     (let parsed =
        (case v of
           JsonText s \<Rightarrow>
             if s = [] then Some v
             else jsonParse s
         | _ \<Rightarrow> Some v)
      in case parsed of
           Some (Elems xs) \<Rightarrow> map normalizeRel xs
         | _ \<Rightarrow> [])"

text \<open>
  What the grouper reads from a normalised relation when it builds a group:
  \<^verbatim>\<open>relation.targetAnimeId || relation.id\<close> and
  \<^verbatim>\<open>relation.relationType || relation.type || "UNKNOWN"\<close>.
\<close>

definition targetOf :: "rel \<Rightarrow> string option" where
  "targetOf r = js_or (r_targetAnimeId r) (r_id r)"

definition relationTypeOf :: "rel \<Rightarrow> string" where
  "relationTypeOf r = js_or_lit (js_or (r_relationType r) (r_type r)) ''UNKNOWN''"


section \<open>Records\<close>

text \<open>
  A record of the input: \<^verbatim>\<open>id\<close>, \<^verbatim>\<open>title\<close>, \<^verbatim>\<open>title_romaji\<close>, \<^verbatim>\<open>start_date\<close>,
  \<^verbatim>\<open>relations\<close> and \<^verbatim>\<open>seriesId\<close>. The type parameter is the type of the
  \<^verbatim>\<open>relations\<close> field: \<open>raw_relations\<close> as ingested, \<open>rel list\<close> once the
  normaliser has overwritten it.
\<close>

record 'r anime =
  anime_id :: string
  title :: "string option"
  title_romaji :: "string option"
  start_date :: "string option"
  relations :: 'r
  anime_seriesId :: "string option"

definition normalizeAnime ::
  "(string \<Rightarrow> raw_relations option) \<Rightarrow> raw_relations anime \<Rightarrow> rel list anime" where
  "normalizeAnime jsonParse a =
     \<lparr>anime_id = anime_id a, title = title a, title_romaji = title_romaji a,
      start_date = start_date a, relations = normalizeRelations jsonParse (relations a),
      anime_seriesId = anime_seriesId a\<rparr>"

text \<open>
  \<^verbatim>\<open>animeMap[anime.id] = anime\<close> for every record in order: a later record with the same
  id replaces an earlier one.
\<close>

definition animeMap :: "'r anime list \<Rightarrow> string \<Rightarrow> 'r anime option" where
  "animeMap recs = foldl (\<lambda>m a. m(anime_id a \<mapsto> a)) Map.empty recs"

section \<open>findAllRelatedIds (pipeline.js, lines 357-396)\<close>

text \<open>
  The state the traversal threads through its recursion: the set \<^verbatim>\<open>processedIds\<close> it
  returns (a JavaScript \<^verbatim>\<open>Set\<close>, kept in insertion order; the caller names it
  \<^verbatim>\<open>relatedIds\<close>), the map \<^verbatim>\<open>relationChains\<close>, and the warnings it logs (chain and
  target of each \<^verbatim>\<open>Circular relation detected\<close> message).
\<close>

record traversal =
  relatedIds :: "string list"
  relationChains :: "string \<Rightarrow> string list option"
  warnings :: "(string list \<times> string) list"

definition emptyTraversal :: traversal where
  "emptyTraversal = \<lparr>relatedIds = [], relationChains = Map.empty, warnings = []\<rparr>"

text \<open>The body of the \<^verbatim>\<open>forEach\<close> callback before the recursive call.\<close>

definition noteRelation :: "string \<Rightarrow> string \<Rightarrow> traversal \<Rightarrow> traversal" where
  "noteRelation animeId targetId st =
     (let currentChain = (case relationChains st animeId of None \<Rightarrow> [] | Some c \<Rightarrow> c);
          newChain = currentChain @ [animeId]
      in st\<lparr>relationChains := (relationChains st)(targetId \<mapsto> newChain),
            warnings := (if targetId \<in> set currentChain
                         then warnings st @ [(currentChain, targetId)] else warnings st)\<rparr>)"

lemma relatedIds_noteRelation: "relatedIds (noteRelation a t st) = relatedIds st"
  by (simp add: noteRelation_def Let_def)

function findAllRelatedIds :: "rel list anime list \<Rightarrow> string \<Rightarrow> traversal \<Rightarrow> traversal"
  and forEachRelation ::
    "rel list anime list \<Rightarrow> string \<Rightarrow> rel list \<Rightarrow> traversal \<Rightarrow> traversal"
  where
  "findAllRelatedIds recs animeId st =
     (if animeId \<in> set (relatedIds st) then st
      else (case animeMap recs animeId of
              None \<Rightarrow> st\<lparr>relatedIds := relatedIds st @ [animeId]\<rparr>
            | Some a \<Rightarrow>
                forEachRelation recs animeId (relations a)
                  (st\<lparr>relatedIds := relatedIds st @ [animeId]\<rparr>)))"
| "forEachRelation recs animeId [] st = st"
| "forEachRelation recs animeId (r # rs) st =
     (if \<not> truthy (targetOf r) then forEachRelation recs animeId rs st
      else if the (targetOf r) \<in> set (relatedIds st)
        then forEachRelation recs animeId rs (noteRelation animeId (the (targetOf r)) st)
        else forEachRelation recs animeId rs
               (findAllRelatedIds recs (the (targetOf r))
                  (noteRelation animeId (the (targetOf r)) st)))"
  by pat_completeness auto

lemma dom_animeMap_aux:
  "dom (foldl (\<lambda>m a. m(anime_id a \<mapsto> a)) m0 recs) = dom m0 \<union> anime_id ` set recs"
  by (induction recs arbitrary: m0) auto

lemma dom_animeMap: "dom (animeMap recs) = anime_id ` set recs"
  by (simp add: animeMap_def dom_animeMap_aux)

lemma relatedIds_grow_dom:
  "(findAllRelatedIds_forEachRelation_dom (Inl (recs, animeId, st)) \<longrightarrow>
      set (relatedIds st) \<subseteq> set (relatedIds (findAllRelatedIds recs animeId st)))
   \<and> (findAllRelatedIds_forEachRelation_dom (Inr (recs, animeId', rs, st')) \<longrightarrow>
      set (relatedIds st') \<subseteq> set (relatedIds (forEachRelation recs animeId' rs st')))"
proof -
  have "findAllRelatedIds_forEachRelation_dom (Inl (recs, animeId, st)) \<Longrightarrow>
      set (relatedIds st) \<subseteq> set (relatedIds (findAllRelatedIds recs animeId st))"
    and "findAllRelatedIds_forEachRelation_dom (Inr (recs, animeId', rs, st')) \<Longrightarrow>
      set (relatedIds st') \<subseteq> set (relatedIds (forEachRelation recs animeId' rs st'))"
  proof (induction recs animeId st and recs animeId' rs st'
      rule: findAllRelatedIds_forEachRelation.pinduct)
    case (1 recs animeId st)
    then show ?case
      by (auto simp: findAllRelatedIds.psimps split: option.splits)
  next
    case (2 recs animeId st)
    then show ?case by (simp add: forEachRelation.psimps)
  next
    case (3 recs animeId r rs st)
    then show ?case
      by (auto simp: forEachRelation.psimps relatedIds_noteRelation)
  qed
  then show ?thesis by blast
qed

termination findAllRelatedIds
proof (relation "inv_image (less_than <*lex*> less_than)
    (\<lambda>x. case x of
       Inl (recs, animeId, st) \<Rightarrow> (card (anime_id ` set recs - set (relatedIds st)), 0)
     | Inr (recs, animeId, rs, st) \<Rightarrow>
         (card (anime_id ` set recs - set (relatedIds st)), Suc (length rs)))", goal_cases)
  case 1
  then show ?case by (intro wf_inv_image wf_lex_prod wf_less_than)
next
  case (2 recs animeId st a)
  then have "animeId \<in> anime_id ` set recs"
    using dom_animeMap[of recs] by blast
  with 2 have "anime_id ` set recs - set (relatedIds st @ [animeId])
      \<subset> anime_id ` set recs - set (relatedIds st)"
    by auto
  then show ?case
    by (simp add: psubset_card_mono)
next
  case (3 recs animeId r rs st)
  then show ?case by simp
next
  case (4 recs animeId r rs st)
  then show ?case by (simp add: relatedIds_noteRelation)
next
  case (5 recs animeId r rs st)
  then show ?case by (simp add: relatedIds_noteRelation)
next
  case (6 recs animeId r rs st)
  from 6(3) have "set (relatedIds (noteRelation animeId (the (targetOf r)) st))
      \<subseteq> set (relatedIds (findAllRelatedIds recs (the (targetOf r))
            (noteRelation animeId (the (targetOf r)) st)))"
    using relatedIds_grow_dom by blast
  then have "anime_id ` set recs - set (relatedIds (findAllRelatedIds recs (the (targetOf r))
            (noteRelation animeId (the (targetOf r)) st)))
      \<subseteq> anime_id ` set recs - set (relatedIds st)"
    by (auto simp: relatedIds_noteRelation)
  then have "card (anime_id ` set recs - set (relatedIds (findAllRelatedIds recs
            (the (targetOf r)) (noteRelation animeId (the (targetOf r)) st))))
      \<le> card (anime_id ` set recs - set (relatedIds st))"
    by (simp add: card_mono)
  then show ?case by auto
qed

declare findAllRelatedIds.simps [simp del]

text \<open>
  The relation edges the traversal follows: from a record to the truthy target of each of
  its normalised relations. The second definition is the specification's reading: the
  nodes connected to \<open>x\<close> when every edge is also taken backwards.
\<close>

definition edges :: "rel list anime list \<Rightarrow> (string \<times> string) set" where
  "edges recs =
     {(x, y). \<exists>a r. animeMap recs x = Some a \<and> r \<in> set (relations a) \<and>
                truthy (targetOf r) \<and> targetOf r = Some y}"

definition undirectedComponent :: "rel list anime list \<Rightarrow> string \<Rightarrow> string set" where
  "undirectedComponent recs x = {y. (x, y) \<in> (edges recs \<union> (edges recs)\<inverse>)\<^sup>*}"

section \<open>generateSeriesId (pipeline.js, lines 319-347)\<close>

text \<open>
  Decimal rendering of a number inside a template string. \<open>digitChar\<close> is only applied
  to a digit below ten.
\<close>

definition digitChar :: "nat \<Rightarrow> char" where
  "digitChar d = ''0123456789'' ! d"

fun showNat :: "nat \<Rightarrow> string" where
  "showNat n = (if n < 10 then [digitChar n] else showNat (n div 10) @ [digitChar (n mod 10)])"

declare showNat.simps [simp del]

text \<open>
  \<^verbatim>\<open>toLowerCase()\<close> on the ASCII letters; every character that is not in \<open>[a-z0-9]\<close>
  afterwards is replaced by an underscore, so the bytes of a non-ASCII character end up as
  one underscore once runs are collapsed.
\<close>

definition toLowerChar :: "char \<Rightarrow> char" where
  "toLowerChar c =
     (case map_of (zip ''ABCDEFGHIJKLMNOPQRSTUVWXYZ'' ''abcdefghijklmnopqrstuvwxyz'') c of
        None \<Rightarrow> c | Some l \<Rightarrow> l)"

definition toLowerCase :: "string \<Rightarrow> string" where
  "toLowerCase s = map toLowerChar s"

definition isSlugChar :: "char \<Rightarrow> bool" where
  "isSlugChar c = (c \<in> set ''abcdefghijklmnopqrstuvwxyz0123456789'')"

text \<open>\<^verbatim>\<open>.replace(/_+/g, "_")\<close>\<close>

fun collapseUnderscores :: "string \<Rightarrow> string" where
  "collapseUnderscores (a # b # cs) =
     (if a = CHR ''_'' \<and> b = CHR ''_'' then collapseUnderscores (b # cs)
      else a # collapseUnderscores (b # cs))"
| "collapseUnderscores cs = cs"

text \<open>\<^verbatim>\<open>.replace(/^_|_$/g, "")\<close>: one leading and one trailing underscore.\<close>

definition stripEnds :: "string \<Rightarrow> string" where
  "stripEnds s =
     (let s1 = (case s of [] \<Rightarrow> [] | c # cs \<Rightarrow> if c = CHR ''_'' then cs else s)
      in if s1 \<noteq> [] \<and> last s1 = CHR ''_'' then butlast s1 else s1)"

definition slugify :: "string \<Rightarrow> string" where
  "slugify t =
     take 30 (stripEnds (collapseUnderscores
       (map (\<lambda>c. if isSlugChar c then c else CHR ''_'') (toLowerCase t))))"

lemma showNat_nonempty: "showNat n \<noteq> []"
  by (subst showNat.simps) simp

lemma digitChar_inj: "a < 10 \<Longrightarrow> b < 10 \<Longrightarrow> digitChar a = digitChar b \<Longrightarrow> a = b"
proof -
  assume a: "a < 10" and b: "b < 10" and e: "digitChar a = digitChar b"
  have d: "distinct ''0123456789''" by simp
  have l: "length ''0123456789'' = 10" by simp
  from e have "''0123456789'' ! a = ''0123456789'' ! b" by (simp only: digitChar_def)
  with d a b l show "a = b" by (metis nth_eq_iff_index_eq)
qed

lemma showNat_inj: "showNat n = showNat m \<Longrightarrow> n = m"
proof (induction n arbitrary: m rule: showNat.induct)
  case (1 n)
  show ?case
  proof (cases "n < 10")
    case True
    then have sn: "showNat n = [digitChar n]" by (simp add: showNat.simps)
    show ?thesis
    proof (cases "m < 10")
      case True
      then have "showNat m = [digitChar m]" by (simp add: showNat.simps)
      with sn 1(2) \<open>n < 10\<close> True show ?thesis by (auto dest: digitChar_inj)
    next
      case False
      then have "showNat m = showNat (m div 10) @ [digitChar (m mod 10)]"
        by (simp add: showNat.simps)
      with sn 1(2) have "showNat (m div 10) = []" by simp
      then show ?thesis using showNat_nonempty by blast
    qed
  next
    case False
    then have sn: "showNat n = showNat (n div 10) @ [digitChar (n mod 10)]"
      by (simp add: showNat.simps)
    show ?thesis
    proof (cases "m < 10")
      case True
      then have "showNat m = [digitChar m]" by (simp add: showNat.simps)
      with sn 1(2) have "showNat (n div 10) = []" by simp
      then show ?thesis using showNat_nonempty by blast
    next
      case m: False
      then have "showNat m = showNat (m div 10) @ [digitChar (m mod 10)]"
        by (simp add: showNat.simps)
      with sn 1(2) have a: "showNat (n div 10) = showNat (m div 10)"
        and b: "digitChar (n mod 10) = digitChar (m mod 10)" by simp_all
      from 1(1)[OF False a] have "n div 10 = m div 10" .
      moreover from b have "n mod 10 = m mod 10" by (auto intro: digitChar_inj)
      ultimately show ?thesis by (metis div_mult_mod_eq)
    qed
  qed
qed

lemma finite_suffixed: "finite {k. slug @ ''_'' @ showNat k \<in> set existingIds}"
proof -
  have "inj (\<lambda>k. slug @ ''_'' @ showNat k)"
    by (auto simp: inj_def dest: showNat_inj)
  then have "finite ((\<lambda>k. slug @ ''_'' @ showNat k) -` set existingIds)"
    by (intro finite_vimageI) simp_all
  then show ?thesis by (simp add: vimage_def)
qed

text \<open>
  The loop \<^verbatim>\<open>while (existingIds.has(seriesId)) { seriesId = `${slug}_${counter}`; counter++ }\<close>.
\<close>

function uniqueSeriesId :: "string \<Rightarrow> string list \<Rightarrow> string \<Rightarrow> nat \<Rightarrow> string" where
  "uniqueSeriesId slug existingIds seriesId counter =
     (if seriesId \<in> set existingIds
      then uniqueSeriesId slug existingIds (slug @ ''_'' @ showNat counter) (Suc counter)
      else seriesId)"
  by pat_completeness auto
termination uniqueSeriesId
proof (relation "measure (\<lambda>(slug, existingIds, seriesId, counter).
    2 * card {k. counter \<le> k \<and> slug @ ''_'' @ showNat k \<in> set existingIds}
    + (if seriesId \<in> set existingIds then 1 else 0))", goal_cases)
  case 1
  then show ?case by simp
next
  case (2 slug existingIds seriesId counter)
  let ?A = "{k. counter \<le> k \<and> slug @ ''_'' @ showNat k \<in> set existingIds}"
  let ?B = "{k. Suc counter \<le> k \<and> slug @ ''_'' @ showNat k \<in> set existingIds}"
  have fin: "finite ?A"
    by (rule finite_subset[OF _ finite_suffixed[of slug existingIds]]) auto
  have sub: "?B \<subseteq> ?A" by auto
  show ?case
  proof (cases "slug @ ''_'' @ showNat counter \<in> set existingIds")
    case True
    then have "counter \<in> ?A" "counter \<notin> ?B" by auto
    with sub have "?B \<subset> ?A" by blast
    with fin have "card ?B < card ?A" by (rule psubset_card_mono)
    with 2 True show ?thesis by simp
  next
    case False
    from fin sub have "card ?B \<le> card ?A" by (rule card_mono)
    with 2 False show ?thesis by simp
  qed
qed

declare uniqueSeriesId.simps [simp del]

text \<open>
  \<^verbatim>\<open>Date.now()\<close> and \<^verbatim>\<open>Math.floor(Math.random() * 1000)\<close> are inputs of the model: the
  pair \<open>(now, rnd)\<close> is what the two calls return.
\<close>

definition randomSeriesId :: "nat \<times> nat \<Rightarrow> string" where
  "randomSeriesId env = ''series_'' @ showNat (fst env) @ ''_'' @ showNat (snd env)"

definition generateSeriesId :: "nat \<times> nat \<Rightarrow> 'r anime list \<Rightarrow> string list \<Rightarrow> string" where
  "generateSeriesId env animeDetails existingIds =
     (case animeDetails of
        [] \<Rightarrow> randomSeriesId env
      | firstAnime # _ \<Rightarrow>
          if \<not> truthy (title firstAnime) then randomSeriesId env
          else let slug = slugify (the (title firstAnime))
               in uniqueSeriesId slug existingIds slug 1)"

section \<open>SeriesGrouper (pipeline.js, groupAnimeIntoSeries_internal, lines 468-602)\<close>

text \<open>
  A value interpolated into a template string or used as a property key:
  \<^verbatim>\<open>undefined\<close> is rendered as the text \<open>undefined\<close>.
\<close>

definition keyOf :: "string option \<Rightarrow> string" where
  "keyOf v = (case v of None \<Rightarrow> ''undefined'' | Some s \<Rightarrow> s)"

text \<open>
  A series group. \<open>groupRelations\<close> is the field \<^verbatim>\<open>relations\<close>; \<open>animeDetails\<close> and
  \<open>relationTypes\<close> are objects, kept as association lists in insertion order.
\<close>

record edge =
  sourceAnimeId :: string
  targetAnimeId :: "string option"
  relationType :: string
  direction :: string

record detail =
  detail_id :: string
  detail_title :: string

record seriesGroup =
  seriesId :: string
  seriesName :: string
  animeIds :: "string list"
  animeDetails :: "(string \<times> detail) list"
  groupRelations :: "edge list"
  relationTypes :: "(string \<times> string list) list"

text \<open>The edge-case report.\<close>

record seriesRef =
  ref_seriesId :: string
  ref_seriesName :: string

record multiEntry =
  multi_animeId :: string
  multi_title :: string
  foundInSeries :: "seriesRef list"

record orphanEntry =
  orphan_animeId :: string
  orphan_title :: "string option"
  reason :: string

record edgeCases =
  animeInMultipleSeries :: "multiEntry list"
  orphanedAnime :: "orphanEntry list"
  circularRelations :: "(string list \<times> string) list"

text \<open>
  The variables of \<^verbatim>\<open>groupAnimeIntoSeries_internal\<close>. \<open>records\<close> are the record objects
  of \<^verbatim>\<open>animeData\<close>, which \<^verbatim>\<open>animeMap\<close> shares: the function mutates them in place.
\<close>

record grouping =
  records :: "rel list anime list"
  series :: "seriesGroup list"
  processedIds :: "string list"
  seriesIds :: "string list"
  edgeCases :: edgeCases
  animeToSeries :: "string \<Rightarrow> string option"

definition initialGrouping :: "rel list anime list \<Rightarrow> grouping" where
  "initialGrouping recs =
     \<lparr>records = recs, series = [], processedIds = [], seriesIds = [],
      edgeCases = \<lparr>animeInMultipleSeries = [], orphanedAnime = [], circularRelations = []\<rparr>,
      animeToSeries = Map.empty\<rparr>"

text \<open>\<^verbatim>\<open>set.add(x)\<close> on a set kept as a list without duplicates.\<close>

definition setAdd :: "'a \<Rightarrow> 'a list \<Rightarrow> 'a list" where
  "setAdd x xs = (if x \<in> set xs then xs else xs @ [x])"

text \<open>\<^verbatim>\<open>obj[k] = v\<close> on an object kept as an association list.\<close>

fun setProp :: "'k \<Rightarrow> 'v \<Rightarrow> ('k \<times> 'v) list \<Rightarrow> ('k \<times> 'v) list" where
  "setProp k v [] = [(k, v)]"
| "setProp k v ((k', v') # kvs) =
     (if k' = k then (k, v) # kvs else (k', v') # setProp k v kvs)"

text \<open>
  \<^verbatim>\<open>if (!types[t]) types[t] = []; if (!types[t].includes(key)) types[t].push(key)\<close>
\<close>

fun addRelationKey :: "string \<Rightarrow> string \<Rightarrow> (string \<times> string list) list \<Rightarrow> (string \<times> string list) list"
  where
  "addRelationKey t key [] = [(t, [key])]"
| "addRelationKey t key ((t', keys) # kvs) =
     (if t' = t then (t', setAdd key keys) # kvs else (t', keys) # addRelationKey t key kvs)"

text \<open>
  \<^verbatim>\<open>anime.seriesId = seriesId\<close> where \<^verbatim>\<open>anime\<close> is the object \<^verbatim>\<open>animeMap[k]\<close>: the last
  record of the input whose id is \<open>k\<close>.
\<close>

fun updateFirst :: "('a \<Rightarrow> bool) \<Rightarrow> ('a \<Rightarrow> 'a) \<Rightarrow> 'a list \<Rightarrow> 'a list" where
  "updateFirst p f [] = []"
| "updateFirst p f (x # xs) = (if p x then f x # xs else x # updateFirst p f xs)"

definition assignSeriesId :: "string \<Rightarrow> string \<Rightarrow> 'r anime list \<Rightarrow> 'r anime list" where
  "assignSeriesId k sid recs =
     rev (updateFirst (\<lambda>a. anime_id a = k) (\<lambda>a. a\<lparr>anime_seriesId := Some sid\<rparr>) (rev recs))"

text \<open>The callback of \<^verbatim>\<open>anime.relations.forEach\<close> while a group is built.\<close>

definition addRelation :: "string \<Rightarrow> seriesGroup \<Rightarrow> rel \<Rightarrow> seriesGroup" where
  "addRelation animeId g relation =
     (let targetId = targetOf relation;
          relType = relationTypeOf relation;
          relationKey = animeId @ ''->'' @ keyOf targetId
      in g\<lparr>groupRelations := groupRelations g @
              [\<lparr>sourceAnimeId = animeId, targetAnimeId = targetId, relationType = relType,
                direction = ''forward''\<rparr>],
            relationTypes := addRelationKey relType relationKey (relationTypes g)\<rparr>)"

text \<open>The callback of \<^verbatim>\<open>animeDetails.forEach\<close>.\<close>

definition addMember ::
  "string \<Rightarrow> grouping \<times> seriesGroup \<Rightarrow> rel list anime \<Rightarrow> grouping \<times> seriesGroup" where
  "addMember sid acc a =
     (let st = fst acc; g = snd acc;
          g1 = g\<lparr>animeDetails := setProp (anime_id a)
                  \<lparr>detail_id = anime_id a,
                   detail_title = js_or_lit (js_or (title_romaji a) (title a)) ''Unknown Title''\<rparr>
                  (animeDetails g)\<rparr>
      in (st\<lparr>records := assignSeriesId (anime_id a) sid (records st),
             animeToSeries := (animeToSeries st)(anime_id a \<mapsto> sid)\<rparr>,
          foldl (addRelation (anime_id a)) g1 (relations a)))"

definition multiMembership :: "grouping \<Rightarrow> string \<Rightarrow> multiEntry" where
  "multiMembership st i =
     (let existingSeries = the (animeToSeries st i)
      in \<lparr>multi_animeId = i,
          multi_title = js_or_lit (case animeMap (records st) i of None \<Rightarrow> None | Some a \<Rightarrow> title a)
                          ''Unknown'',
          foundInSeries =
            [\<lparr>ref_seriesId = existingSeries, ref_seriesName = existingSeries\<rparr>,
             \<lparr>ref_seriesId = ''proposed_new_series'', ref_seriesName = ''Proposed New Series''\<rparr>]\<rparr>)"

definition markOrphan :: "string \<Rightarrow> grouping \<Rightarrow> rel list anime \<Rightarrow> grouping" where
  "markOrphan why st a =
     st\<lparr>edgeCases := (edgeCases st)\<lparr>orphanedAnime := orphanedAnime (edgeCases st) @
          [\<lparr>orphan_animeId = anime_id a, orphan_title = title a, reason = why\<rparr>]\<rparr>,
        processedIds := setAdd (anime_id a) (processedIds st)\<rparr>"

definition createSeries :: "(nat \<Rightarrow> nat \<times> nat) \<Rightarrow> grouping \<Rightarrow> string list \<Rightarrow> grouping" where
  "createSeries clock st related =
     (let details = List.map_filter (animeMap (records st)) related;
          sid = generateSeriesId (clock (length (series st))) details (seriesIds st);
          seriesGroup =
            \<lparr>seriesId = sid,
             seriesName = js_or_lit (case details of [] \<Rightarrow> None | a # _ \<Rightarrow> title a)
                            (''Series '' @ showNat (length (series st) + 1)),
             animeIds = related, animeDetails = [], groupRelations = [], relationTypes = []\<rparr>;
          built = foldl (addMember sid) (st\<lparr>seriesIds := setAdd sid (seriesIds st)\<rparr>, seriesGroup)
                    details;
          st1 = fst built
      in st1\<lparr>series := series st1 @ [snd built],
             processedIds := foldl (\<lambda>p i. setAdd i p) (processedIds st1) related\<rparr>)"

text \<open>
  The callback of the second \<^verbatim>\<open>animeData.forEach\<close>. \<open>clock n\<close> is what
  \<^verbatim>\<open>Date.now()\<close> and the random draw return in the call of \<^verbatim>\<open>generateSeriesId\<close> for
  the group of index \<open>n\<close>.
\<close>

definition processAnime :: "(nat \<Rightarrow> nat \<times> nat) \<Rightarrow> grouping \<Rightarrow> rel list anime \<Rightarrow> grouping" where
  "processAnime clock st a =
     (if anime_id a \<in> set (processedIds st) then st
      else if relations a = [] then markOrphan ''No relations found'' st a
      else
        let related = relatedIds (findAllRelatedIds (records st) (anime_id a) emptyTraversal)
        in if length related = 1 then markOrphan ''No reciprocal relations found'' st a
           else
             let conflictingAnime = filter (\<lambda>i. animeToSeries st i \<noteq> None) related
             in if conflictingAnime \<noteq> [] then
                  st\<lparr>edgeCases := (edgeCases st)\<lparr>animeInMultipleSeries :=
                         animeInMultipleSeries (edgeCases st) @
                         map (multiMembership st) conflictingAnime\<rparr>,
                     processedIds := foldl (\<lambda>p i. setAdd i p) (processedIds st) related\<rparr>
                else createSeries clock st related)"

text \<open>
  The whole function: the first loop normalises every record in place, the second groups.
  The result is the final state: \<open>series\<close> and \<open>edgeCases\<close> are what the function
  returns, \<open>records\<close> is what it leaves in the caller's array. The callbacks of the
  second loop and of \<^verbatim>\<open>animeDetails.forEach\<close> read only the id, the titles and the
  relations of the record they are given, which the second loop never changes; the fold
  therefore runs over the records as the first loop left them.
\<close>

definition groupAnimeIntoSeries_internal ::
  "(string \<Rightarrow> raw_relations option) \<Rightarrow> (nat \<Rightarrow> nat \<times> nat) \<Rightarrow> raw_relations anime list \<Rightarrow> grouping"
  where
  "groupAnimeIntoSeries_internal jsonParse clock animeData =
     (let recs = map (normalizeAnime jsonParse) animeData
      in foldl (processAnime clock) (initialGrouping recs) recs)"

section \<open>Graph (3-advanced-series-split.js, lines 136-204)\<close>

text \<open>
  In the splitter an id is whatever the group's relation list holds: the source of an edge
  is a string, its target may be \<^verbatim>\<open>undefined\<close>. A vertex is therefore a
  \<open>string option\<close>. The adjacency \<^verbatim>\<open>Map\<close> is kept as an association list in insertion
  order.
\<close>

type_synonym vertex = "string option"

type_synonym 'v adjacency = "('v \<times> 'v list) list"

definition addVertex :: "'v \<Rightarrow> 'v adjacency \<Rightarrow> 'v adjacency" where
  "addVertex v g = (if v \<in> fst ` set g then g else g @ [(v, [])])"

text \<open>\<^verbatim>\<open>adjacencyList.get(s).push(t)\<close>\<close>

definition pushNeighbor :: "'v \<Rightarrow> 'v \<Rightarrow> 'v adjacency \<Rightarrow> 'v adjacency" where
  "pushNeighbor s t g = map (\<lambda>(k, ns). if k = s then (k, ns @ [t]) else (k, ns)) g"

definition addEdge :: "'v \<Rightarrow> 'v \<Rightarrow> 'v adjacency \<Rightarrow> 'v adjacency" where
  "addEdge source target g =
     pushNeighbor target source (pushNeighbor source target (addVertex target (addVertex source g)))"

text \<open>\<^verbatim>\<open>adjacencyList.get(vertex) || []\<close>\<close>

definition neighborsOf :: "'v adjacency \<Rightarrow> 'v \<Rightarrow> 'v list" where
  "neighborsOf g v = (case map_of g v of None \<Rightarrow> [] | Some ns \<Rightarrow> ns)"

text \<open>
  The loop of \<^verbatim>\<open>dfs\<close>. The stack is a list whose head is the top: \<^verbatim>\<open>pop()\<close> takes the
  head, and pushing the unvisited neighbours in order leaves the last of them on top. The
  pair is \<^verbatim>\<open>visited\<close> (shared with the caller) and \<^verbatim>\<open>group\<close>.
\<close>

function dfs_loop :: "'v adjacency \<Rightarrow> 'v list \<Rightarrow> 'v list \<times> 'v list \<Rightarrow> 'v list \<times> 'v list" where
  "dfs_loop g [] vg = vg"
| "dfs_loop g (vertex # stack) vg =
     (if vertex \<notin> set (fst vg) then
        dfs_loop g
          (rev (filter (\<lambda>neighbor. neighbor \<notin> set (fst vg @ [vertex])) (neighborsOf g vertex)) @ stack)
          (fst vg @ [vertex], snd vg @ [vertex])
      else dfs_loop g stack vg)"
  by pat_completeness auto
termination dfs_loop
proof (relation "inv_image (less_than <*lex*> less_than)
    (\<lambda>(g, stack, vg). (card (fst ` set g - set (fst vg)), length stack))", goal_cases)
  case 1
  then show ?case by (intro wf_inv_image wf_lex_prod wf_less_than)
next
  case (2 g vertex stack vg)
  show ?case
  proof (cases "vertex \<in> fst ` set g")
    case True
    with 2 have "fst ` set g - set (fst vg @ [vertex]) \<subset> fst ` set g - set (fst vg)"
      by auto
    then have "card (fst ` set g - set (fst vg @ [vertex])) < card (fst ` set g - set (fst vg))"
      by (simp add: psubset_card_mono)
    then show ?thesis by simp
  next
    case False
    then have "map_of g vertex = None"
      by (simp add: map_of_eq_None_iff)
    then have n: "neighborsOf g vertex = []" by (simp add: neighborsOf_def)
    from False have "fst ` set g - set (fst vg @ [vertex]) = fst ` set g - set (fst vg)"
      by auto
    with n show ?thesis by simp
  qed
next
  case (3 g vertex stack vg)
  then show ?case by simp
qed

declare dfs_loop.simps [simp del]

definition dfs :: "'v adjacency \<Rightarrow> 'v \<Rightarrow> 'v list \<Rightarrow> 'v list \<times> 'v list" where
  "dfs g start visited = dfs_loop g [start] (visited, [])"

text \<open>
  The loop of \<^verbatim>\<open>findConnectedGroups\<close> over the keys of the adjacency map, with
  \<^verbatim>\<open>visited\<close> and \<^verbatim>\<open>groups\<close> as accumulators.
\<close>

fun connectedGroups_loop :: "'v adjacency \<Rightarrow> 'v list \<Rightarrow> 'v list \<Rightarrow> 'v list list \<Rightarrow> 'v list list"
  where
  "connectedGroups_loop g [] visited groups = groups"
| "connectedGroups_loop g (vertex # rest) visited groups =
     (if vertex \<notin> set visited then
        connectedGroups_loop g rest (fst (dfs g vertex visited)) (groups @ [snd (dfs g vertex visited)])
      else connectedGroups_loop g rest visited groups)"

definition findConnectedGroups :: "'v adjacency \<Rightarrow> 'v list list" where
  "findConnectedGroups g = connectedGroups_loop g (map fst g) [] []"

text \<open>
  A relation map (\<^verbatim>\<open>Map\<close> from an id to the \<^verbatim>\<open>Set\<close> of its partners) has the shape of
  an adjacency list whose neighbour lists have no duplicates.
\<close>

definition addPartner :: "'v \<Rightarrow> 'v \<Rightarrow> 'v adjacency \<Rightarrow> 'v adjacency" where
  "addPartner s t m = map (\<lambda>(k, ns). if k = s then (k, setAdd t ns) else (k, ns)) m"

definition addRelationPair :: "'v \<Rightarrow> 'v \<Rightarrow> 'v adjacency \<Rightarrow> 'v adjacency" where
  "addRelationPair source target m =
     addPartner target source (addPartner source target (addVertex target (addVertex source m)))"

definition findConnectedGroupsFromRelations :: "'v adjacency \<Rightarrow> 'v list list" where
  "findConnectedGroupsFromRelations relationMap =
     findConnectedGroups
       (foldl (\<lambda>g (sourceId, targets). foldl (\<lambda>g targetId. addEdge sourceId targetId g) g targets)
          [] relationMap)"

section \<open>NamingResolver (getSeriesNameFromOldestAnime, lines 212-243)\<close>

text \<open>
  \<^verbatim>\<open>Array.prototype.sort\<close> with a comparator: a stable insertion sort. The comparator's
  result is \<open>None\<close> when it is \<^verbatim>\<open>NaN\<close>, which the sort treats as zero. (When the
  comparator is not a consistent ordering the language leaves the order to the engine;
  this is the order an insertion sort gives.)
\<close>

fun js_insert :: "('a \<Rightarrow> 'a \<Rightarrow> int option) \<Rightarrow> 'a \<Rightarrow> 'a list \<Rightarrow> 'a list" where
  "js_insert cmp x [] = [x]"
| "js_insert cmp x (y # ys) =
     (if (case cmp x y of None \<Rightarrow> False | Some c \<Rightarrow> c < 0) then x # y # ys
      else y # js_insert cmp x ys)"

definition js_sort :: "('a \<Rightarrow> 'a \<Rightarrow> int option) \<Rightarrow> 'a list \<Rightarrow> 'a list" where
  "js_sort cmp xs = foldl (\<lambda>sorted x. js_insert cmp x sorted) [] xs"

text \<open>
  \<^verbatim>\<open>Number(a) - Number(b)\<close>. The conversion \<^verbatim>\<open>Number\<close> of a string is a parameter
  (\<open>None\<close> is \<^verbatim>\<open>NaN\<close>); \<^verbatim>\<open>Number(undefined)\<close> is \<^verbatim>\<open>NaN\<close>.
\<close>

definition numberOf :: "(string \<Rightarrow> int option) \<Rightarrow> vertex \<Rightarrow> int option" where
  "numberOf num v = (case v of None \<Rightarrow> None | Some s \<Rightarrow> num s)"

definition minus_js :: "int option \<Rightarrow> int option \<Rightarrow> int option" where
  "minus_js a b = (case (a, b) of (Some x, Some y) \<Rightarrow> Some (x - y) | _ \<Rightarrow> None)"

definition byNumber :: "(string \<Rightarrow> int option) \<Rightarrow> vertex \<Rightarrow> vertex \<Rightarrow> int option" where
  "byNumber num a b = minus_js (numberOf num a) (numberOf num b)"

text \<open>
  The comparator of \<^verbatim>\<open>getSeriesNameFromOldestAnime\<close>. \<open>date\<close> is the parameter for
  \<^verbatim>\<open>new Date(s)\<close>: the time value, or \<open>None\<close> for an invalid date.
\<close>

definition byAge ::
  "(string \<Rightarrow> int option) \<Rightarrow> (string \<Rightarrow> int option) \<Rightarrow> (string \<Rightarrow> 'r anime option) \<Rightarrow>
    vertex \<Rightarrow> vertex \<Rightarrow> int option" where
  "byAge num date am a b =
     (case (am (keyOf a), am (keyOf b)) of
        (Some animeA, Some animeB) \<Rightarrow>
          if truthy (start_date animeA) \<and> truthy (start_date animeB) then
            (case (date (the (start_date animeA)), date (the (start_date animeB))) of
               (Some dateA, Some dateB) \<Rightarrow> Some (dateA - dateB)
             | _ \<Rightarrow> byNumber num a b)
          else byNumber num a b
      | _ \<Rightarrow> byNumber num a b)"

definition getSeriesNameFromOldestAnime ::
  "(string \<Rightarrow> int option) \<Rightarrow> (string \<Rightarrow> int option) \<Rightarrow> (string \<Rightarrow> 'r anime option) \<Rightarrow>
    vertex list \<Rightarrow> string" where
  "getSeriesNameFromOldestAnime num date am ids =
     (if ids = [] then ''Unknown Series''
      else
        let sortedIds = js_sort (byAge num date am) ids;
            oldestId = (case sortedIds of [] \<Rightarrow> None | i # _ \<Rightarrow> i)
        in case am (keyOf oldestId) of
             None \<Rightarrow> ''Series '' @ keyOf oldestId
           | Some oldestAnime \<Rightarrow>
               js_or_lit (js_or (title_romaji oldestAnime) (title oldestAnime))
                 (''Series '' @ keyOf oldestId))"

section \<open>SeriesSplitter (processSeriesData and processRelationGroups, lines 251-550)\<close>

record mainCluster =
  main_seriesId :: string
  main_seriesName :: string
  main_originalSeriesId :: string
  main_animeIds :: "vertex list"
  otherIds :: "vertex list"
  characterIds :: "vertex list"
  adaptationIds :: "vertex list"
  spinOffIds :: "vertex list"
  main_relations :: "edge list"

record relationCluster =
  rc_seriesId :: string
  rc_seriesName :: string
  rc_originalSeriesId :: string
  rc_animeIds :: "vertex list"
  seriesType :: string
  rc_relations :: "edge list"

text \<open>
  The \<^verbatim>\<open>results\<close> object. \<open>extraResults\<close> holds the arrays that
  \<^verbatim>\<open>processRelationGroups\<close> creates for a key the object does not have yet.
\<close>

record results =
  main :: "mainCluster list"
  character :: "relationCluster list"
  adaptation :: "relationCluster list"
  spinOff :: "relationCluster list"
  other :: "relationCluster list"
  parent :: "relationCluster list"
  extraResults :: "(string \<times> relationCluster list) list"

text \<open>The graphs and relation maps of the first pass.\<close>

record relationGraphs =
  graph :: "vertex adjacency"
  characterRelations :: "vertex adjacency"
  adaptationRelations :: "vertex adjacency"
  spinOffRelations :: "vertex adjacency"
  otherRelations :: "vertex adjacency"
  parentRelations :: "vertex adjacency"

definition emptyGraphs :: relationGraphs where
  "emptyGraphs = \<lparr>graph = [], characterRelations = [], adaptationRelations = [],
     spinOffRelations = [], otherRelations = [], parentRelations = []\<rparr>"

definition classifyRelation :: "relationGraphs \<Rightarrow> edge \<Rightarrow> relationGraphs" where
  "classifyRelation gs relation =
     (let s = Some (sourceAnimeId relation); t = targetAnimeId relation;
          ty = relationType relation
      in if ty = ''CHARACTER'' then
           gs\<lparr>characterRelations := addRelationPair s t (characterRelations gs)\<rparr>
         else if ty = ''ADAPTATION'' then
           gs\<lparr>adaptationRelations := addRelationPair s t (adaptationRelations gs)\<rparr>
         else if ty = ''SPIN_OFF'' then
           gs\<lparr>spinOffRelations := addRelationPair s t (spinOffRelations gs)\<rparr>
         else if ty = ''OTHER'' \<or> ty = ''PARENT'' then
           (let gs1 = gs\<lparr>otherRelations := addRelationPair s t (otherRelations gs)\<rparr>
            in if ty = ''PARENT'' then
                 gs1\<lparr>parentRelations := addRelationPair s t (parentRelations gs1)\<rparr>
               else gs1)
         else gs\<lparr>graph := addEdge s t (graph gs)\<rparr>)"

text \<open>The sets and the map a main group collects while it scans the relations.\<close>

record collected =
  c_otherIds :: "vertex list"
  c_characterIds :: "vertex list"
  c_adaptationIds :: "vertex list"
  c_spinOffIds :: "vertex list"
  c_uniqueRelations :: "(string \<times> edge) list"

definition relationKey3 :: "edge \<Rightarrow> string" where
  "relationKey3 relation =
     sourceAnimeId relation @ ''-'' @ keyOf (targetAnimeId relation) @ ''-'' @ relationType relation"

definition collectRelation :: "vertex list \<Rightarrow> vertex \<Rightarrow> collected \<Rightarrow> edge \<Rightarrow> collected" where
  "collectRelation grp animeId c relation =
     (let s = Some (sourceAnimeId relation); t = targetAnimeId relation;
          ty = relationType relation
      in if s = animeId \<or> t = animeId then
           (let otherId = (if s = animeId then t else s)
            in if ty = ''CHARACTER'' then
                 (if otherId \<notin> set grp then c\<lparr>c_characterIds := setAdd otherId (c_characterIds c)\<rparr>
                  else c)
               else if ty = ''ADAPTATION'' then
                 (if otherId \<notin> set grp then c\<lparr>c_adaptationIds := setAdd otherId (c_adaptationIds c)\<rparr>
                  else c)
               else if ty = ''SPIN_OFF'' then
                 (if otherId \<notin> set grp then c\<lparr>c_spinOffIds := setAdd otherId (c_spinOffIds c)\<rparr>
                  else c)
               else if s \<in> set grp \<and> t \<in> set grp then
                 c\<lparr>c_uniqueRelations := setProp (relationKey3 relation) relation (c_uniqueRelations c)\<rparr>
               else c\<lparr>c_otherIds := setAdd otherId (c_otherIds c)\<rparr>)
         else c)"

text \<open>
  The comparator of the relation lists:
  \<^verbatim>\<open>Number(a.sourceAnimeId) - Number(b.sourceAnimeId) || Number(a.targetAnimeId) - Number(b.targetAnimeId)\<close>.
\<close>

definition byEndpoints :: "(string \<Rightarrow> int option) \<Rightarrow> edge \<Rightarrow> edge \<Rightarrow> int option" where
  "byEndpoints num a b =
     (case byNumber num (Some (sourceAnimeId a)) (Some (sourceAnimeId b)) of
        Some c \<Rightarrow> if c \<noteq> 0 then Some c else byNumber num (targetAnimeId a) (targetAnimeId b)
      | None \<Rightarrow> byNumber num (targetAnimeId a) (targetAnimeId b))"

definition mainClusterOf ::
  "(string \<Rightarrow> int option) \<Rightarrow> (string \<Rightarrow> int option) \<Rightarrow> (string \<Rightarrow> 'r anime option) \<Rightarrow>
    seriesGroup \<Rightarrow> nat \<Rightarrow> vertex list \<Rightarrow> mainCluster" where
  "mainClusterOf num date am srs index grp =
     (let c = foldl (\<lambda>c animeId. foldl (collectRelation grp animeId) c (groupRelations srs))
                \<lparr>c_otherIds = [], c_characterIds = [], c_adaptationIds = [], c_spinOffIds = [],
                 c_uniqueRelations = []\<rparr> grp
      in \<lparr>main_seriesId = ''series_'' @ seriesId srs @ ''_'' @ showNat (index + 1),
          main_seriesName = getSeriesNameFromOldestAnime num date am grp,
          main_originalSeriesId = seriesId srs,
          main_animeIds = js_sort (byNumber num) grp,
          otherIds = js_sort (byNumber num) (c_otherIds c),
          characterIds = js_sort (byNumber num) (c_characterIds c),
          adaptationIds = js_sort (byNumber num) (c_adaptationIds c),
          spinOffIds = js_sort (byNumber num) (c_spinOffIds c),
          main_relations = js_sort (byEndpoints num) (map snd (c_uniqueRelations c))\<rparr>)"

text \<open>\<^verbatim>\<open>relationType.charAt(0) + relationType.slice(1).toLowerCase()\<close>\<close>

definition capitalized :: "string \<Rightarrow> string" where
  "capitalized s = (case s of [] \<Rightarrow> [] | c # cs \<Rightarrow> c # toLowerCase cs)"

text \<open>
  The callback of \<^verbatim>\<open>groups.forEach\<close> in \<^verbatim>\<open>processRelationGroups\<close>: \<open>None\<close> when the
  group is skipped, otherwise the cluster that is pushed. The block for the character
  groups in \<^verbatim>\<open>processSeriesData\<close> is the same code with \<open>CHARACTER\<close> for the type.
\<close>

definition relationClusterOf ::
  "(string \<Rightarrow> int option) \<Rightarrow> (string \<Rightarrow> int option) \<Rightarrow> (string \<Rightarrow> 'r anime option) \<Rightarrow>
    string \<Rightarrow> seriesGroup \<Rightarrow> vertex list \<Rightarrow> nat \<times> vertex list \<Rightarrow> relationCluster option" where
  "relationClusterOf num date am relType srs mainAnimeIds ig =
     (let index = fst ig;
          filteredGroup = filter (\<lambda>i. i \<notin> set mainAnimeIds) (snd ig)
      in if length filteredGroup < 2 then None
         else
           let resultKey = toLowerCase relType;
               keep = (\<lambda>u relation.
                 if relationType relation = relType \<and>
                    Some (sourceAnimeId relation) \<in> set filteredGroup \<and>
                    targetAnimeId relation \<in> set filteredGroup
                 then setProp (relationKey3 relation) relation u else u);
               uniqueRelations =
                 foldl (\<lambda>u animeId. foldl keep u (groupRelations srs)) [] filteredGroup
           in Some
             \<lparr>rc_seriesId = resultKey @ ''_'' @ seriesId srs @ ''_'' @ showNat (index + 1),
              rc_seriesName = getSeriesNameFromOldestAnime num date am filteredGroup
                 @ '' ('' @ capitalized relType @ '')'',
              rc_originalSeriesId = seriesId srs,
              rc_animeIds = js_sort (byNumber num) filteredGroup,
              seriesType = relType,
              rc_relations = js_sort (byEndpoints num) (map snd uniqueRelations)\<rparr>)"

text \<open>
  \<^verbatim>\<open>results[resultKey].push(...)\<close> for every cluster, the array created when missing.
  The key is the lower-cased relation type; \<^verbatim>\<open>processRelationGroups\<close> is called with
  \<open>ADAPTATION\<close>, \<open>SPIN_OFF\<close>, \<open>OTHER\<close> and \<open>PARENT\<close>, and the key \<open>spin_off\<close> is
  not one of the six arrays of the object.
\<close>

fun pushExtra :: "string \<Rightarrow> relationCluster list \<Rightarrow> (string \<times> relationCluster list) list \<Rightarrow>
    (string \<times> relationCluster list) list" where
  "pushExtra k cs [] = [(k, cs)]"
| "pushExtra k cs ((k', cs') # kvs) =
     (if k' = k then (k', cs' @ cs) # kvs else (k', cs') # pushExtra k cs kvs)"

definition pushResults :: "string \<Rightarrow> relationCluster list \<Rightarrow> results \<Rightarrow> results" where
  "pushResults resultKey cs r =
     (if resultKey = ''character'' then r\<lparr>character := character r @ cs\<rparr>
      else if resultKey = ''adaptation'' then r\<lparr>adaptation := adaptation r @ cs\<rparr>
      else if resultKey = ''spinOff'' then r\<lparr>spinOff := spinOff r @ cs\<rparr>
      else if resultKey = ''other'' then r\<lparr>other := other r @ cs\<rparr>
      else if resultKey = ''parent'' then r\<lparr>parent := parent r @ cs\<rparr>
      else r\<lparr>extraResults := pushExtra resultKey cs (extraResults r)\<rparr>)"

definition mainIdsOf :: "results \<Rightarrow> vertex list" where
  "mainIdsOf r = concat (map main_animeIds (main r))"

definition processRelationGroups ::
  "(string \<Rightarrow> int option) \<Rightarrow> (string \<Rightarrow> int option) \<Rightarrow> vertex list list \<Rightarrow> string \<Rightarrow>
    seriesGroup \<Rightarrow> results \<Rightarrow> (string \<Rightarrow> 'r anime option) \<Rightarrow> results" where
  "processRelationGroups num date groups relType srs r am =
     pushResults (toLowerCase relType)
       (List.map_filter (relationClusterOf num date am relType srs (mainIdsOf r)) (enumerate 0 groups))
       r"

definition processSeriesData ::
  "(string \<Rightarrow> int option) \<Rightarrow> (string \<Rightarrow> int option) \<Rightarrow> seriesGroup \<Rightarrow>
    (string \<Rightarrow> 'r anime option) \<Rightarrow> results" where
  "processSeriesData num date srs am =
     (let gs = foldl classifyRelation emptyGraphs (groupRelations srs);
          connectedGroups = findConnectedGroups (graph gs);
          r0 = \<lparr>main = map (\<lambda>(index, grp). mainClusterOf num date am srs index grp)
                          (enumerate 0 connectedGroups),
                character = [], adaptation = [], spinOff = [], other = [], parent = [],
                extraResults = []\<rparr>;
          r1 = processRelationGroups num date
                 (findConnectedGroupsFromRelations (characterRelations gs)) ''CHARACTER'' srs r0 am;
          r2 = processRelationGroups num date
                 (findConnectedGroupsFromRelations (adaptationRelations gs)) ''ADAPTATION'' srs r1 am;
          r3 = processRelationGroups num date
                 (findConnectedGroupsFromRelations (spinOffRelations gs)) ''SPIN_OFF'' srs r2 am;
          r4 = processRelationGroups num date
                 (findConnectedGroupsFromRelations (otherRelations gs)) ''OTHER'' srs r3 am
      in processRelationGroups num date
           (findConnectedGroupsFromRelations (parentRelations gs)) ''PARENT'' srs r4 am)"

text \<open>
  The loop of \<^verbatim>\<open>advancedSeriesSplit\<close> over the series of the database: the six arrays of
  each result are appended to the output.
\<close>

definition advancedSeriesSplit ::
  "(string \<Rightarrow> int option) \<Rightarrow> (string \<Rightarrow> int option) \<Rightarrow> seriesGroup list \<Rightarrow>
    (string \<Rightarrow> 'r anime option) \<Rightarrow> results" where
  "advancedSeriesSplit num date seriesDb am =
     foldl (\<lambda>out srs.
         let r = processSeriesData num date srs am
         in out\<lparr>main := main out @ main r, character := character out @ character r,
                adaptation := adaptation out @ adaptation r, spinOff := spinOff out @ spinOff r,
                other := other out @ other r, parent := parent out @ parent r\<rparr>)
       \<lparr>main = [], character = [], adaptation = [], spinOff = [], other = [], parent = [],
        extraResults = []\<rparr> seriesDb"

section \<open>Predicates of the statements\<close>



text \<open>
  What the structural graph satisfies: adjacency is symmetric and every key has a
  neighbour; when no structural relation joins an id to itself, no vertex is its own
  neighbour.
\<close>

definition symmetric :: "'v adjacency \<Rightarrow> bool" where
  "symmetric g = (\<forall>v n. n \<in> set (neighborsOf g v) \<longrightarrow> v \<in> set (neighborsOf g n))"

















section \<open>Sample data\<close>

text \<open>Shorthand for the record and relation literals of the examples.\<close>

abbreviation relTo :: "string \<Rightarrow> string \<Rightarrow> rel" where
  "relTo t ty \<equiv> \<lparr>r_targetAnimeId = Some t, r_id = None, r_relationType = Some ty,
     r_type = None, r_node = None\<rparr>"

abbreviation rec :: "string \<Rightarrow> string \<Rightarrow> 'r \<Rightarrow> 'r anime" where
  "rec i t rs \<equiv> \<lparr>anime_id = i, title = Some t, title_romaji = None, start_date = None,
     relations = rs, anime_seriesId = None\<rparr>"

abbreviation rawTo :: "string \<Rightarrow> string \<Rightarrow> raw_rel" where
  "rawTo t ty \<equiv> RelObj (relTo t ty)"



abbreviation noNumber :: "string \<Rightarrow> int option" where
  "noNumber \<equiv> (\<lambda>s. None)"

abbreviation noRecords :: "string \<Rightarrow> unit anime option" where
  "noRecords \<equiv> (\<lambda>s. None)"



section \<open>Relation types\<close>




section \<open>The closure computed by the traversal\<close>

lemmas grouping_eval =
  groupAnimeIntoSeries_internal_def processAnime_def createSeries_def addMember_def addRelation_def
  markOrphan_def multiMembership_def initialGrouping_def normalizeAnime_def normalizeRelations_def
  normalizeRel_def hasNodeId_def generateSeriesId_def slugify_def toLowerCase_def toLowerChar_def
  isSlugChar_def stripEnds_def uniqueSeriesId.simps setAdd_def assignSeriesId_def keyOf_def
  relationTypeOf_def js_or_lit_def List.map_filter_def

lemmas traversal_eval =
  findAllRelatedIds.simps animeMap_def targetOf_def js_or_def truthy_def noteRelation_def
  emptyTraversal_def Let_def

lemma edges_of_record:
  "animeMap recs x = Some a \<Longrightarrow> r \<in> set (relations a) \<Longrightarrow> truthy (targetOf r) \<Longrightarrow>
     (x, the (targetOf r)) \<in> edges recs"
  by (auto simp: edges_def truthy_def split: option.splits)

lemma traversal_sound:
  "set (relatedIds (findAllRelatedIds recs x st))
     \<subseteq> set (relatedIds st) \<union> {y. (x, y) \<in> (edges recs)\<^sup>*}"
  "(\<forall>r\<in>set rs. truthy (targetOf r) \<longrightarrow> (x', the (targetOf r)) \<in> edges recs) \<Longrightarrow>
   set (relatedIds (forEachRelation recs x' rs st'))
     \<subseteq> set (relatedIds st') \<union> {y. (x', y) \<in> (edges recs)\<^sup>*}"
proof (induction recs x st and recs x' rs st' rule: findAllRelatedIds_forEachRelation.induct)
  case (1 recs animeId st)
  show ?case
  proof (cases "animeId \<in> set (relatedIds st)")
    case True
    then show ?thesis by (simp add: findAllRelatedIds.simps)
  next
    case False
    show ?thesis
    proof (cases "animeMap recs animeId")
      case None
      with False show ?thesis by (simp add: findAllRelatedIds.simps)
    next
      case (Some a)
      have "\<forall>r\<in>set (relations a). truthy (targetOf r) \<longrightarrow>
          (animeId, the (targetOf r)) \<in> edges recs"
        using Some by (auto intro: edges_of_record)
      from 1[OF False Some this] False Some show ?thesis
        by (auto simp: findAllRelatedIds.simps)
    qed
  qed
next
  case (2 recs animeId st)
  then show ?case by simp
next
  case (3 recs animeId r rs st)
  let ?t = "the (targetOf r)"
  from 3(5) have rs: "\<forall>r\<in>set rs. truthy (targetOf r) \<longrightarrow> (animeId, the (targetOf r)) \<in> edges recs"
    by simp
  show ?case
  proof (cases "truthy (targetOf r)")
    case False
    with 3(1)[OF False rs] show ?thesis by simp
  next
    case True
    then have e: "(animeId, ?t) \<in> edges recs" using 3(5) by simp
    show ?thesis
    proof (cases "?t \<in> set (relatedIds st)")
      case in_st: True
      from 3(2)[OF _ in_st rs] True in_st show ?thesis
        by (simp add: relatedIds_noteRelation)
    next
      case not_in: False
      have a: "set (relatedIds (findAllRelatedIds recs ?t (noteRelation animeId ?t st)))
         \<subseteq> set (relatedIds st) \<union> {y. (?t, y) \<in> (edges recs)\<^sup>*}"
        using 3(3)[OF _ not_in] True by (simp add: relatedIds_noteRelation)
      have b: "{y. (?t, y) \<in> (edges recs)\<^sup>*} \<subseteq> {y. (animeId, y) \<in> (edges recs)\<^sup>*}"
        using e by (auto intro: converse_rtrancl_into_rtrancl)
      from 3(4)[OF _ not_in rs] True have
        "set (relatedIds (forEachRelation recs animeId rs
            (findAllRelatedIds recs ?t (noteRelation animeId ?t st))))
         \<subseteq> set (relatedIds (findAllRelatedIds recs ?t (noteRelation animeId ?t st)))
            \<union> {y. (animeId, y) \<in> (edges recs)\<^sup>*}" by simp
      with a b True not_in show ?thesis by auto
    qed
  qed
qed

lemma traversal_closed:
  "x \<in> set (relatedIds (findAllRelatedIds recs x st)) \<and>
   set (relatedIds st) \<subseteq> set (relatedIds (findAllRelatedIds recs x st)) \<and>
   (\<forall>u v. u \<in> set (relatedIds (findAllRelatedIds recs x st)) \<and> u \<notin> set (relatedIds st) \<and>
      (u, v) \<in> edges recs \<longrightarrow> v \<in> set (relatedIds (findAllRelatedIds recs x st)))"
  "set (relatedIds st') \<subseteq> set (relatedIds (forEachRelation recs x' rs st')) \<and>
   (\<forall>r\<in>set rs. truthy (targetOf r) \<longrightarrow>
      the (targetOf r) \<in> set (relatedIds (forEachRelation recs x' rs st'))) \<and>
   (\<forall>u v. u \<in> set (relatedIds (forEachRelation recs x' rs st')) \<and> u \<notin> set (relatedIds st') \<and>
      (u, v) \<in> edges recs \<longrightarrow> v \<in> set (relatedIds (forEachRelation recs x' rs st')))"
proof (induction recs x st and recs x' rs st' rule: findAllRelatedIds_forEachRelation.induct)
  case (1 recs animeId st)
  show ?case
  proof (cases "animeId \<in> set (relatedIds st)")
    case True
    then show ?thesis by (auto simp: findAllRelatedIds.simps)
  next
    case False
    show ?thesis
    proof (cases "animeMap recs animeId")
      case None
      then have "\<And>v. (animeId, v) \<notin> edges recs" by (simp add: edges_def)
      with False None show ?thesis by (auto simp: findAllRelatedIds.simps)
    next
      case (Some a)
      let ?res = "forEachRelation recs animeId (relations a)
          (st\<lparr>relatedIds := relatedIds st @ [animeId]\<rparr>)"
      have res: "findAllRelatedIds recs animeId st = ?res"
        using False Some by (simp add: findAllRelatedIds.simps)
      note ih = 1[OF False Some]
      have own: "\<And>v. (animeId, v) \<in> edges recs \<Longrightarrow> v \<in> set (relatedIds ?res)"
      proof -
        fix v assume "(animeId, v) \<in> edges recs"
        then obtain r where "r \<in> set (relations a)" "truthy (targetOf r)" "targetOf r = Some v"
          using Some by (auto simp: edges_def)
        with ih show "v \<in> set (relatedIds ?res)" by force
      qed
      from ih own show ?thesis unfolding res by simp blast
    qed
  qed
next
  case (2 recs animeId st)
  then show ?case by auto
next
  case (3 recs animeId r rs st)
  let ?t = "the (targetOf r)"
  show ?case
  proof (cases "truthy (targetOf r)")
    case False
    with 3(1)[OF False] show ?thesis by simp
  next
    case True
    show ?thesis
    proof (cases "?t \<in> set (relatedIds st)")
      case in_st: True
      let ?res = "forEachRelation recs animeId rs (noteRelation animeId ?t st)"
      have res: "forEachRelation recs animeId (r # rs) st = ?res"
        using True in_st by simp
      have b: "set (relatedIds st) \<subseteq> set (relatedIds ?res)"
        "\<And>r. r \<in> set rs \<Longrightarrow> truthy (targetOf r) \<Longrightarrow> the (targetOf r) \<in> set (relatedIds ?res)"
        "\<And>u v. u \<in> set (relatedIds ?res) \<Longrightarrow> u \<notin> set (relatedIds st) \<Longrightarrow>
            (u, v) \<in> edges recs \<Longrightarrow> v \<in> set (relatedIds ?res)"
        using 3(2)[OF _ in_st] True by (auto simp: relatedIds_noteRelation)
      have e: "\<forall>r'\<in>set (r # rs). truthy (targetOf r') \<longrightarrow> the (targetOf r') \<in> set (relatedIds ?res)"
        using in_st b(1) b(2) by auto
      show ?thesis unfolding res using b(1) b(3) e by blast
    next
      case not_in: False
      let ?mid = "findAllRelatedIds recs ?t (noteRelation animeId ?t st)"
      let ?res = "forEachRelation recs animeId rs ?mid"
      have res: "forEachRelation recs animeId (r # rs) st = ?res"
        using True not_in by simp
      have a: "?t \<in> set (relatedIds ?mid)" "set (relatedIds st) \<subseteq> set (relatedIds ?mid)"
        "\<And>u v. u \<in> set (relatedIds ?mid) \<Longrightarrow> u \<notin> set (relatedIds st) \<Longrightarrow>
            (u, v) \<in> edges recs \<Longrightarrow> v \<in> set (relatedIds ?mid)"
        using 3(3)[OF _ not_in] True by (auto simp: relatedIds_noteRelation)
      have b: "set (relatedIds ?mid) \<subseteq> set (relatedIds ?res)"
        "\<And>r. r \<in> set rs \<Longrightarrow> truthy (targetOf r) \<Longrightarrow> the (targetOf r) \<in> set (relatedIds ?res)"
        "\<And>u v. u \<in> set (relatedIds ?res) \<Longrightarrow> u \<notin> set (relatedIds ?mid) \<Longrightarrow>
            (u, v) \<in> edges recs \<Longrightarrow> v \<in> set (relatedIds ?res)"
        using 3(4)[OF _ not_in] True by auto
      have c: "\<And>u v. u \<in> set (relatedIds ?res) \<Longrightarrow> u \<notin> set (relatedIds st) \<Longrightarrow>
            (u, v) \<in> edges recs \<Longrightarrow> v \<in> set (relatedIds ?res)"
        using a b by blast
      have d: "set (relatedIds st) \<subseteq> set (relatedIds ?res)"
        using a(2) b(1) by blast
      have e: "\<forall>r'\<in>set (r # rs). truthy (targetOf r') \<longrightarrow> the (targetOf r') \<in> set (relatedIds ?res)"
        using a(1) b(1) b(2) by auto
      show ?thesis unfolding res using c d e by blast
    qed
  qed
qed

text \<open>
  C1 (as the code has it): the closure computed for a start record is the set of nodes
  reachable from it along relation edges taken forwards only, from a record to the targets
  of its own relations.
\<close>

theorem closure_is_forward_reachability:
  "set (relatedIds (findAllRelatedIds recs x emptyTraversal)) = {y. (x, y) \<in> (edges recs)\<^sup>*}"
proof
  show "set (relatedIds (findAllRelatedIds recs x emptyTraversal)) \<subseteq> {y. (x, y) \<in> (edges recs)\<^sup>*}"
    using traversal_sound(1)[of recs x emptyTraversal] by (simp add: emptyTraversal_def)
next
  have "y \<in> set (relatedIds (findAllRelatedIds recs x emptyTraversal))"
    if "(x, y) \<in> (edges recs)\<^sup>*" for y
    using that
  proof (induction rule: rtrancl_induct)
    case base
    then show ?case using traversal_closed(1) by blast
  next
    case (step y z)
    then show ?case
      using traversal_closed(1)[of x recs emptyTraversal] by (auto simp: emptyTraversal_def)
  qed
  then show "{y. (x, y) \<in> (edges recs)\<^sup>*} \<subseteq> set (relatedIds (findAllRelatedIds recs x emptyTraversal))"
    by blast
qed

text \<open>
  C1, counterexample: record 3 points at record 1 and nothing points back. In the
  undirected graph 3 is connected to 1, but the closure computed from 1 is \<open>{1, 2}\<close>.
\<close>

theorem closure_misses_incoming_edge:
  "set (relatedIds (findAllRelatedIds
      [rec ''1'' ''A'' [relTo ''2'' ''SEQUEL''], rec ''2'' ''B'' [], rec ''3'' ''C'' [relTo ''1'' ''PREQUEL'']]
      ''1'' emptyTraversal))
   \<noteq> undirectedComponent
      [rec ''1'' ''A'' [relTo ''2'' ''SEQUEL''], rec ''2'' ''B'' [], rec ''3'' ''C'' [relTo ''1'' ''PREQUEL'']]
      ''1''"
proof -
  let ?recs = "[rec ''1'' ''A'' [relTo ''2'' ''SEQUEL''], rec ''2'' ''B'' [],
    rec ''3'' ''C'' [relTo ''1'' ''PREQUEL'']]"
  have "animeMap ?recs ''3'' = Some (rec ''3'' ''C'' [relTo ''1'' ''PREQUEL''])"
    by (simp add: animeMap_def)
  then have "(''3'', ''1'') \<in> edges ?recs"
    by (simp add: edges_def targetOf_def js_or_def truthy_def)
  then have "(''1'', ''3'') \<in> (edges ?recs \<union> (edges ?recs)\<inverse>)\<^sup>*"
    by (intro r_into_rtrancl) simp
  then have in_comp: "''3'' \<in> undirectedComponent ?recs ''1''"
    by (simp add: undirectedComponent_def)
  have "relatedIds (findAllRelatedIds ?recs ''1'' emptyTraversal) = [''1'', ''2'']"
    by (simp add: traversal_eval)
  then have "''3'' \<notin> set (relatedIds (findAllRelatedIds ?recs ''1'' emptyTraversal))"
    by simp
  with in_comp show ?thesis by metis
qed

section \<open>Frame lemmas of the grouping loop\<close>

lemma map_updateFirst:
  "(\<And>x. g (f x) = g x) \<Longrightarrow> map g (updateFirst p f xs) = map g xs"
  by (induction xs) auto

lemma map_assignSeriesId:
  "(\<And>a s. f (a\<lparr>anime_seriesId := s\<rparr>) = f a) \<Longrightarrow> map f (assignSeriesId k sid recs) = map f recs"
  by (simp add: assignSeriesId_def rev_map[symmetric] map_updateFirst)

lemma addMember_frame:
  assumes "\<And>a s. f (a\<lparr>anime_seriesId := s\<rparr>) = f a"
  shows "map f (records (fst (addMember sid acc a))) = map f (records (fst acc))"
    and "series (fst (addMember sid acc a)) = series (fst acc)"
    and "edgeCases (fst (addMember sid acc a)) = edgeCases (fst acc)"
    and "processedIds (fst (addMember sid acc a)) = processedIds (fst acc)"
    and "seriesIds (fst (addMember sid acc a)) = seriesIds (fst acc)"
  using assms by (simp_all add: addMember_def Let_def map_assignSeriesId)

lemma foldl_addMember_frame:
  assumes "\<And>a s. f (a\<lparr>anime_seriesId := s\<rparr>) = f a"
  shows "map f (records (fst (foldl (addMember sid) acc ds))) = map f (records (fst acc))
    \<and> series (fst (foldl (addMember sid) acc ds)) = series (fst acc)
    \<and> edgeCases (fst (foldl (addMember sid) acc ds)) = edgeCases (fst acc)
    \<and> processedIds (fst (foldl (addMember sid) acc ds)) = processedIds (fst acc)
    \<and> seriesIds (fst (foldl (addMember sid) acc ds)) = seriesIds (fst acc)"
proof (induction ds arbitrary: acc)
  case Nil
  then show ?case by simp
next
  case (Cons d ds)
  show ?case
    using Cons[of "addMember sid acc d"] addMember_frame[OF assms, of sid acc d] by simp
qed

lemma createSeries_frame:
  assumes "\<And>a s. f (a\<lparr>anime_seriesId := s\<rparr>) = f a"
  shows "map f (records (createSeries clock st related)) = map f (records st)"
    and "edgeCases (createSeries clock st related) = edgeCases st"
  using foldl_addMember_frame[OF assms]
  by (simp_all add: createSeries_def Let_def)

lemma processAnime_frame:
  assumes "\<And>a s. f (a\<lparr>anime_seriesId := s\<rparr>) = f a"
  shows "map f (records (processAnime clock st a)) = map f (records st)"
  using createSeries_frame(1)[OF assms]
  by (simp add: processAnime_def Let_def markOrphan_def)

lemma processAnime_circular:
  "circularRelations (edgeCases (processAnime clock st a)) = circularRelations (edgeCases st)"
  using createSeries_frame(2)[of "\<lambda>a. ()"]
  by (simp add: processAnime_def Let_def markOrphan_def)


lemma foldl_processAnime_circular:
  "circularRelations (edgeCases (foldl (processAnime clock) st as)) = circularRelations (edgeCases st)"
  by (induction as arbitrary: st) (simp_all add: processAnime_circular)


lemma circularRelations_never_filled:
  "circularRelations (edgeCases (groupAnimeIntoSeries_internal jsonParse clock animeData)) = []"
  by (simp add: groupAnimeIntoSeries_internal_def Let_def foldl_processAnime_circular
      initialGrouping_def)


text \<open>
  C2, at the failing input: records 1 and 2 both point at 9, which has no record. Two
  groups are emitted and 9 is a member of both.
\<close>

theorem dangling_target_in_two_groups:
  "map animeIds (series (groupAnimeIntoSeries_internal jsonParse clock
     [rec ''1'' ''Alpha'' (Elems [rawTo ''9'' ''SEQUEL'']),
      rec ''2'' ''Beta'' (Elems [rawTo ''9'' ''SEQUEL''])]))
   = [[''1'', ''9''], [''2'', ''9'']]"
  by code_simp

text \<open>
  C7, at the failing input: records 1 and 2 point at each other. The traversal from 1
  reaches the relation of 2 whose target 1 lies on the chain and logs the warning; the
  report's list of circular relations is empty, as it is after every run.
\<close>

theorem circular_relation_not_reported:
  "warnings (findAllRelatedIds
      (map (normalizeAnime jsonParse)
        [rec ''1'' ''Alpha'' (Elems [rawTo ''2'' ''SEQUEL'']),
         rec ''2'' ''Beta'' (Elems [rawTo ''1'' ''PREQUEL''])])
      ''1'' emptyTraversal) = [([''1''], ''1'')]
   \<and> circularRelations (edgeCases (groupAnimeIntoSeries_internal jsonParse clock
        [rec ''1'' ''Alpha'' (Elems [rawTo ''2'' ''SEQUEL'']),
         rec ''2'' ''Beta'' (Elems [rawTo ''1'' ''PREQUEL''])])) = []"
proof
  show "warnings (findAllRelatedIds
      (map (normalizeAnime jsonParse)
        [rec ''1'' ''Alpha'' (Elems [rawTo ''2'' ''SEQUEL'']),
         rec ''2'' ''Beta'' (Elems [rawTo ''1'' ''PREQUEL''])])
      ''1'' emptyTraversal) = [([''1''], ''1'')]"
    by (simp add: traversal_eval normalizeAnime_def normalizeRelations_def normalizeRel_def
        hasNodeId_def)
next
  show "circularRelations (edgeCases (groupAnimeIntoSeries_internal jsonParse clock
        [rec ''1'' ''Alpha'' (Elems [rawTo ''2'' ''SEQUEL'']),
         rec ''2'' ''Beta'' (Elems [rawTo ''1'' ''PREQUEL''])])) = []"
    by (rule circularRelations_never_filled)
qed

section \<open>Sorting keeps the elements\<close>






section \<open>The clusters of one series\<close>













section \<open>The structural graph\<close>















section \<open>The search\<close>
















section \<open>More on the traversal\<close>

lemma traversal_appends:
  "\<exists>ys. relatedIds (findAllRelatedIds recs x st) = relatedIds st @ ys"
  "\<exists>ys. relatedIds (forEachRelation recs x' rs st') = relatedIds st' @ ys"
proof (induction recs x st and recs x' rs st' rule: findAllRelatedIds_forEachRelation.induct)
  case (1 recs animeId st)
  show ?case
  proof (cases "animeId \<in> set (relatedIds st)")
    case True
    then show ?thesis by (simp add: findAllRelatedIds.simps)
  next
    case False
    show ?thesis
    proof (cases "animeMap recs animeId")
      case None
      with False show ?thesis by (simp add: findAllRelatedIds.simps)
    next
      case (Some a)
      from 1[OF False Some] obtain ys where
        "relatedIds (forEachRelation recs animeId (relations a)
            (st\<lparr>relatedIds := relatedIds st @ [animeId]\<rparr>)) = (relatedIds st @ [animeId]) @ ys"
        by auto
      with False Some show ?thesis by (simp add: findAllRelatedIds.simps)
    qed
  qed
next
  case (2 recs animeId st)
  then show ?case by simp
next
  case (3 recs animeId r rs st)
  let ?t = "the (targetOf r)"
  show ?case
  proof (cases "truthy (targetOf r)")
    case False
    with 3(1)[OF False] show ?thesis by simp
  next
    case True
    show ?thesis
    proof (cases "?t \<in> set (relatedIds st)")
      case in_st: True
      from 3(2)[OF _ in_st] True in_st show ?thesis
        by (simp add: relatedIds_noteRelation)
    next
      case not_in: False
      from 3(3)[OF _ not_in] True obtain ys where
        a: "relatedIds (findAllRelatedIds recs ?t (noteRelation animeId ?t st)) = relatedIds st @ ys"
        by (auto simp: relatedIds_noteRelation)
      from 3(4)[OF _ not_in] True obtain zs where
        "relatedIds (forEachRelation recs animeId rs
            (findAllRelatedIds recs ?t (noteRelation animeId ?t st)))
          = relatedIds (findAllRelatedIds recs ?t (noteRelation animeId ?t st)) @ zs"
        by auto
      with a True not_in show ?thesis by simp
    qed
  qed
qed


lemma closure_starts_with_start:
  "\<exists>ys. relatedIds (findAllRelatedIds recs x emptyTraversal) = x # ys"
proof (cases "animeMap recs x")
  case None
  then show ?thesis by (simp add: findAllRelatedIds.simps emptyTraversal_def)
next
  case (Some a)
  from traversal_appends(2)[of recs x "relations a" "emptyTraversal\<lparr>relatedIds := [x]\<rparr>"]
  show ?thesis using Some by (auto simp: findAllRelatedIds.simps emptyTraversal_def)
qed


section \<open>The record map\<close>

lemma animeMap_aux:
  "foldl (\<lambda>m a. m(anime_id a \<mapsto> a)) m0 recs k = Some r \<Longrightarrow>
     (r \<in> set recs \<and> anime_id r = k) \<or> (m0 k = Some r)"
proof (induction recs arbitrary: m0)
  case Nil
  then show ?case by simp
next
  case (Cons a recs)
  from Cons.prems have "foldl (\<lambda>m a. m(anime_id a \<mapsto> a)) (m0(anime_id a \<mapsto> a)) recs k = Some r"
    by (simp only: foldl_Cons)
  from Cons.IH[OF this] show ?case
    by (auto split: if_splits)
qed

lemma animeMap_SomeD: "animeMap recs k = Some r \<Longrightarrow> r \<in> set recs \<and> anime_id r = k"
  using animeMap_aux[of Map.empty recs k r] by (simp add: animeMap_def)

lemma animeMap_member: "a \<in> set recs \<Longrightarrow> \<exists>r. animeMap recs (anime_id a) = Some r"
  using dom_animeMap[of recs] by blast


section \<open>One step of the grouping loop\<close>









section \<open>Determinism\<close>

lemma generateSeriesId_titled:
  "details = r # rest \<Longrightarrow> truthy (title r) \<Longrightarrow>
     generateSeriesId e1 details ex = generateSeriesId e2 details ex"
  by (simp add: generateSeriesId_def)

lemma createSeries_clock:
  assumes "related = x # ys" and "animeMap (records st) x = Some r" and "truthy (title r)"
  shows "createSeries c1 st related = createSeries c2 st related"
proof -
  have "List.map_filter (animeMap (records st)) related
      = r # List.map_filter (animeMap (records st)) ys"
    using assms(1,2) by (simp add: List.map_filter_def)
  from generateSeriesId_titled[OF this assms(3)]
  have "generateSeriesId (c1 (length (series st))) (List.map_filter (animeMap (records st)) related)
        (seriesIds st)
      = generateSeriesId (c2 (length (series st))) (List.map_filter (animeMap (records st)) related)
        (seriesIds st)" .
  then show ?thesis by (simp add: createSeries_def)
qed

lemma processAnime_clock:
  assumes "\<forall>r \<in> set (records st). truthy (title r)"
    and "anime_id a \<in> anime_id ` set (records st)"
  shows "processAnime c1 st a = processAnime c2 st a"
proof -
  obtain ys where ys: "relatedIds (findAllRelatedIds (records st) (anime_id a) emptyTraversal)
      = anime_id a # ys"
    using closure_starts_with_start by blast
  from assms(2) obtain r where r: "animeMap (records st) (anime_id a) = Some r"
    using dom_animeMap[of "records st"] by blast
  with assms(1) have "truthy (title r)" by (auto dest: animeMap_SomeD)
  from createSeries_clock[OF ys r this] show ?thesis
    by (simp add: processAnime_def Let_def)
qed

lemma foldl_processAnime_clock:
  "\<forall>r \<in> set (records st). truthy (title r) \<Longrightarrow>
   anime_id ` set as \<subseteq> anime_id ` set (records st) \<Longrightarrow>
   foldl (processAnime c1) st as = foldl (processAnime c2) st as"
proof (induction as arbitrary: st)
  case Nil
  then show ?case by simp
next
  case (Cons a as)
  have step: "processAnime c1 st a = processAnime c2 st a"
    using Cons.prems by (intro processAnime_clock) auto
  have "map title (records (processAnime c1 st a)) = map title (records st)"
    by (rule processAnime_frame) simp
  then have "set (map title (records (processAnime c1 st a))) = set (map title (records st))"
    by simp
  then have t: "\<forall>r \<in> set (records (processAnime c1 st a)). truthy (title r)"
    using Cons.prems(1) by (metis (no_types, lifting) image_iff list.set_map)
  have "map anime_id (records (processAnime c1 st a)) = map anime_id (records st)"
    by (rule processAnime_frame) simp
  then have "set (map anime_id (records (processAnime c1 st a))) = set (map anime_id (records st))"
    by simp
  then have i: "anime_id ` set as \<subseteq> anime_id ` set (records (processAnime c1 st a))"
    using Cons.prems(2) by auto
  from Cons.IH[OF t i] step show ?case by simp
qed

text \<open>
  C6 (as the code has it): when every record has a non-empty title, grouping and splitting
  do not depend on the clock or the random draw: two runs give the same groups, ids,
  members and report, and the same clusters.
\<close>

theorem titled_runs_agree:
  assumes "\<forall>a \<in> set animeData. truthy (title a)"
  shows "groupAnimeIntoSeries_internal jsonParse c1 animeData
       = groupAnimeIntoSeries_internal jsonParse c2 animeData
     \<and> advancedSeriesSplit num date
         (series (groupAnimeIntoSeries_internal jsonParse c1 animeData)) am
       = advancedSeriesSplit num date
         (series (groupAnimeIntoSeries_internal jsonParse c2 animeData)) am"
proof -
  let ?recs = "map (normalizeAnime jsonParse) animeData"
  have "\<forall>r \<in> set (records (initialGrouping ?recs)). truthy (title r)"
    using assms by (simp add: initialGrouping_def normalizeAnime_def)
  moreover have "anime_id ` set ?recs \<subseteq> anime_id ` set (records (initialGrouping ?recs))"
    by (simp add: initialGrouping_def)
  ultimately have "foldl (processAnime c1) (initialGrouping ?recs) ?recs
      = foldl (processAnime c2) (initialGrouping ?recs) ?recs"
    by (rule foldl_processAnime_clock)
  then show ?thesis by (simp add: groupAnimeIntoSeries_internal_def Let_def)
qed

text \<open>
  C6, witness: two titled records pointing at each other, and two different clocks.
\<close>

theorem titled_runs_agree_witness:
  "groupAnimeIntoSeries_internal (\<lambda>s. None) (\<lambda>n. (0, 0))
       [rec ''1'' ''Alpha'' (Elems [rawTo ''2'' ''SEQUEL'']),
        rec ''2'' ''Beta'' (Elems [rawTo ''1'' ''PREQUEL''])]
     = groupAnimeIntoSeries_internal (\<lambda>s. None) (\<lambda>n. (1700000000000, 421))
       [rec ''1'' ''Alpha'' (Elems [rawTo ''2'' ''SEQUEL'']),
        rec ''2'' ''Beta'' (Elems [rawTo ''1'' ''PREQUEL''])]"
  using titled_runs_agree[of "[rec ''1'' ''Alpha'' (Elems [rawTo ''2'' ''SEQUEL'']),
        rec ''2'' ''Beta'' (Elems [rawTo ''1'' ''PREQUEL''])]" "\<lambda>s. None" "\<lambda>n. (0, 0)"
      "\<lambda>n. (1700000000000, 421)" noNumber noNumber noRecords]
  by (simp add: truthy_def)

text \<open>
  C6, counterexample: the first record has no title, so the group id is made from the
  clock and the random draw; two runs on the same records give two different group ids.
\<close>

theorem untitled_runs_differ:
  "map seriesId (series (groupAnimeIntoSeries_internal (\<lambda>s. None) (\<lambda>n. (0, 0))
       [\<lparr>anime_id = ''1'', title = None, title_romaji = None, start_date = None,
          relations = Elems [rawTo ''2'' ''SEQUEL''], anime_seriesId = None\<rparr>,
        rec ''2'' ''Beta'' (Elems [rawTo ''1'' ''PREQUEL''])])) = [''series_0_0'']
   \<and> map seriesId (series (groupAnimeIntoSeries_internal (\<lambda>s. None) (\<lambda>n. (1, 0))
       [\<lparr>anime_id = ''1'', title = None, title_romaji = None, start_date = None,
          relations = Elems [rawTo ''2'' ''SEQUEL''], anime_seriesId = None\<rparr>,
        rec ''2'' ''Beta'' (Elems [rawTo ''1'' ''PREQUEL''])])) = [''series_1_0'']"
  by code_simp

section \<open>The conflict veto\<close>










section \<open>Names\<close>








section \<open>The names of the groups\<close>











end
